theory Spec2Isabelle
  imports Complex_Main "HOL-Library.Log_Nat" "HOL-Library.AList"
begin

section \<open>Python values used by the report objects\<close>

text \<open>
  The objects of \<^verbatim>\<open>objects.py\<close> are plain attribute holders and every method is a
  formatting function over them. Strings are lists of characters; a character is read as
  the code point it carries (0 to 255), so the whitespace and case tables below are the
  ones Python uses on that range. Exceptions are values of \<open>pyerr\<close>.
\<close>

datatype pyerr = TypeError | ValueError | AttributeError

text \<open>
  A free attribute (notes, call number, supplemental amounts) is only ever tested for
  truth and converted with \<^verbatim>\<open>str()\<close>: \<open>PyObj b s\<close> stands for any object other than
  \<^verbatim>\<open>None\<close> and a string, given by its truth value and its \<^verbatim>\<open>str()\<close>.
\<close>

datatype pyval = PyNone | PyStr string | PyObj bool string

fun truthy :: "pyval \<Rightarrow> bool" where
  "truthy PyNone = False"
| "truthy (PyStr s) = (s \<noteq> [])"
| "truthy (PyObj b s) = b"

fun py_str :: "pyval \<Rightarrow> string" where
  "py_str PyNone = ''None''"
| "py_str (PyStr s) = s"
| "py_str (PyObj b s) = s"

definition getattr_or :: "'a option \<Rightarrow> 'a \<Rightarrow> 'a" where
  "getattr_or field dflt = (case field of None \<Rightarrow> dflt | Some v \<Rightarrow> v)"

subsection \<open>String methods\<close>

definition py_isspace :: "char \<Rightarrow> bool" where
  "py_isspace c = (c \<in> set [CHR 0x09, CHR 0x0A, CHR 0x0B, CHR 0x0C, CHR 0x0D,
     CHR 0x1C, CHR 0x1D, CHR 0x1E, CHR 0x1F, CHR 0x20, CHR 0x85, CHR 0xA0])"

definition py_rstrip_by :: "(char \<Rightarrow> bool) \<Rightarrow> string \<Rightarrow> string" where
  "py_rstrip_by P s = rev (dropWhile P (rev s))"

definition py_strip_by :: "(char \<Rightarrow> bool) \<Rightarrow> string \<Rightarrow> string" where
  "py_strip_by P s = py_rstrip_by P (dropWhile P s)"

definition py_strip :: "string \<Rightarrow> string" where
  "py_strip s = py_strip_by py_isspace s"

definition py_rstrip_chars :: "string \<Rightarrow> string \<Rightarrow> string" where
  "py_rstrip_chars cs s = py_rstrip_by (\<lambda>c. c \<in> set cs) s"

definition py_strip_chars :: "string \<Rightarrow> string \<Rightarrow> string" where
  "py_strip_chars cs s = py_strip_by (\<lambda>c. c \<in> set cs) s"

definition py_lower_char :: "char \<Rightarrow> char" where
  "py_lower_char c = (let n = (of_char c :: nat) in
     if (65 \<le> n \<and> n \<le> 90) \<or> (192 \<le> n \<and> n \<le> 222 \<and> n \<noteq> 215)
     then char_of (n + 32) else c)"

definition py_lower :: "string \<Rightarrow> string" where
  "py_lower s = map py_lower_char s"

text \<open>\<^verbatim>\<open>upper()\<close> is only applied to the display names, which are ASCII.\<close>

definition py_upper_char :: "char \<Rightarrow> char" where
  "py_upper_char c = (let n = (of_char c :: nat) in
     if 97 \<le> n \<and> n \<le> 122 then char_of (n - 32) else c)"

definition py_upper :: "string \<Rightarrow> string" where
  "py_upper s = map py_upper_char s"

fun py_join :: "string \<Rightarrow> string list \<Rightarrow> string" where
  "py_join sep [] = []"
| "py_join sep [x] = x"
| "py_join sep (x # y # ys) = x @ sep @ py_join sep (y # ys)"

text \<open>\<^verbatim>\<open>s.split(c)\<close> for a one-character separator: always at least one piece.\<close>

fun py_split :: "char \<Rightarrow> string \<Rightarrow> string list" where
  "py_split c [] = [[]]"
| "py_split c (x # xs) =
     (if x = c then [] # py_split c xs
      else (let r = py_split c xs in (x # hd r) # tl r))"

text \<open>\<^verbatim>\<open>sub in s\<close>.\<close>

fun py_in :: "string \<Rightarrow> string \<Rightarrow> bool" where
  "py_in sub [] = (sub = [])"
| "py_in sub (c # cs) = (take (length sub) (c # cs) = sub \<or> py_in sub cs)"

text \<open>\<^verbatim>\<open>s.replace(c, '')\<close> for a one-character \<open>c\<close>.\<close>

definition py_remove :: "char \<Rightarrow> string \<Rightarrow> string" where
  "py_remove c s = filter (\<lambda>x. x \<noteq> c) s"

subsection \<open>Integers and their text\<close>

definition digit_char :: "nat \<Rightarrow> char" where
  "digit_char d = ''0123456789'' ! (d mod 10)"

fun str_nat :: "nat \<Rightarrow> string" where
  "str_nat n = (if n < 10 then [digit_char n] else str_nat (n div 10) @ [digit_char (n mod 10)])"

declare str_nat.simps [simp del]

definition str_int :: "int \<Rightarrow> string" where
  "str_int i = (if i < 0 then CHR ''-'' # str_nat (nat (- i)) else str_nat (nat i))"

text \<open>\<^verbatim>\<open>f"{m:02d}"\<close>: zero padding to width two, the sign counted in the width.\<close>

definition fmt_02d :: "int \<Rightarrow> string" where
  "fmt_02d m = (if 0 \<le> m \<and> m < 10 then CHR ''0'' # str_int m else str_int m)"

definition is_digit :: "char \<Rightarrow> bool" where
  "is_digit c = (c \<in> set ''0123456789'')"

definition digit_val :: "char \<Rightarrow> nat" where
  "digit_val c = of_char c - 48"

definition digits_val :: "string \<Rightarrow> nat" where
  "digits_val s = foldl (\<lambda>a c. 10 * a + digit_val c) 0 s"

text \<open>
  \<^verbatim>\<open>int(s)\<close> on a string, base ten: surrounding whitespace is dropped (the six ASCII
  blanks and the two non-ASCII spaces, not the separators 0x1C to 0x1F), one sign is
  allowed, then digits with single underscores between them. \<open>None\<close> is the
  \<^verbatim>\<open>ValueError\<close>. Python integers are unbounded; the interpreter's limit on the
  number of digits of a conversion is not modelled.
\<close>

definition int_isspace :: "char \<Rightarrow> bool" where
  "int_isspace c = (c \<in> set [CHR 0x09, CHR 0x0A, CHR 0x0B, CHR 0x0C, CHR 0x0D,
     CHR 0x20, CHR 0x85, CHR 0xA0])"

fun underscores_ok :: "string \<Rightarrow> bool" where
  "underscores_ok [] = True"
| "underscores_ok [c] = (c \<noteq> CHR ''_'')"
| "underscores_ok (c # d # cs) =
     ((c = CHR ''_'' \<longrightarrow> d \<noteq> CHR ''_'') \<and> underscores_ok (d # cs))"

definition int_digits :: "string \<Rightarrow> nat option" where
  "int_digits s =
     (if s \<noteq> [] \<and> hd s \<noteq> CHR ''_'' \<and> underscores_ok s
         \<and> list_all (\<lambda>c. is_digit c \<or> c = CHR ''_'') s
      then Some (digits_val (py_remove CHR ''_'' s)) else None)"

definition py_int :: "string \<Rightarrow> int option" where
  "py_int s =
     (case py_strip_by int_isspace s of
        [] \<Rightarrow> None
      | c # cs \<Rightarrow>
          if c = CHR ''-'' then map_option (\<lambda>n. - int n) (int_digits cs)
          else if c = CHR ''+'' then map_option int (int_digits cs)
          else map_option int (int_digits (c # cs)))"

subsection \<open>Floating-point numbers\<close>

text \<open>
  A Python float is a binary64 number. A finite one is modelled by its exact rational
  value, and each arithmetic operation is the exact operation followed by \<open>b64\<close>, the
  rounding to the nearest number with a 53-bit significand, ties to the even significand
  (subnormals below \<open>2^-1022\<close> included). Infinities and NaN are outside the model:
  hour values are finite and far below the overflow threshold.
\<close>

type_synonym pyfloat = rat

text \<open>\<^verbatim>\<open>round(x)\<close> of a float: the nearest integer, a tie going to the even one.\<close>

definition py_round :: "rat \<Rightarrow> int" where
  "py_round x = (let f = \<lfloor>x\<rfloor>; d = x - of_int f in
     if d < 1/2 then f else if 1/2 < d then f + 1 else if even f then f else f + 1)"

definition flog2 :: "rat \<Rightarrow> int" where
  "flog2 a = (let (p, q) = quotient_of a; e = bitlen p - bitlen q in
     if power_int 2 e \<le> a then e else e - 1)"

definition b64 :: "rat \<Rightarrow> pyfloat" where
  "b64 x = (if x = 0 then 0 else
     let a = \<bar>x\<bar>; e = max (flog2 a) (- 1022); q = power_int 2 (e - 52)
     in sgn x * of_int (py_round (a / q)) * q)"

definition fadd :: "pyfloat \<Rightarrow> pyfloat \<Rightarrow> pyfloat" where
  "fadd a b = b64 (a + b)"

definition fmul :: "pyfloat \<Rightarrow> pyfloat \<Rightarrow> pyfloat" where
  "fmul a b = b64 (a * b)"

definition fdiv :: "rat \<Rightarrow> rat \<Rightarrow> pyfloat" where
  "fdiv a b = b64 (a / b)"

text \<open>
  \<^verbatim>\<open>f"{x:.2f}"\<close>: the exact value of \<open>x\<close> correctly rounded to two decimals (a tie
  to the even last digit), with the sign of \<open>x\<close>.
\<close>

definition fmt_2f :: "pyfloat \<Rightarrow> string" where
  "fmt_2f x = (let k = nat \<bar>py_round (x * 100)\<bar> in
     (if x < 0 then ''-'' else []) @ str_nat (k div 100) @ ''.''
       @ [digit_char (k div 10), digit_char k])"

section \<open>Helper functions\<close>

text \<open>\<^verbatim>\<open>round(n * 100) / 100\<close>: float product, integer rounding, true division.\<close>

definition round2 :: "pyfloat \<Rightarrow> pyfloat" where
  "round2 n = fdiv (of_int (py_round (fmul n 100))) 100"

definition format_number :: "pyfloat \<Rightarrow> string" where
  "format_number n =
     (if n = 0 then ''0''
      else py_rstrip_chars ''.'' (py_rstrip_chars ''0'' (fmt_2f (round2 n))))"

text \<open>\<^verbatim>\<open>oxford_join(items)\<close>.\<close>

fun oxford_join :: "string list \<Rightarrow> string" where
  "oxford_join [] = []"
| "oxford_join [a] = a"
| "oxford_join [a, b] = a @ '' and '' @ b"
| "oxford_join items = py_join '', '' (butlast items) @ '', and '' @ last items"

section \<open>Technician\<close>

text \<open>
  An entry of the \<^verbatim>\<open>hours\<close> dictionary is a number (given by its exact value) or
  \<^verbatim>\<open>None\<close>, which is what an unanswered numeric field holds.
\<close>

datatype hour_value = HNone | HNum rat

record technician =
  name :: "string option"
  hours :: "string \<rightharpoonup> hour_value"

definition HOUR_TYPES :: "string list" where
  "HOUR_TYPES = [''em'', ''gpr'', ''travel'', ''survey'', ''concrete_gpr'', ''standby'']"

definition HOUR_LABELS :: "(string \<times> string) list" where
  "HOUR_LABELS = [(''em'', ''EM''), (''gpr'', ''GPR''), (''travel'', ''Travel''),
     (''survey'', ''Survey''), (''concrete_gpr'', ''Conc. GPR''), (''standby'', ''Standby'')]"

text \<open>\<^verbatim>\<open>HOUR_LABELS.get(hour_type, hour_type)\<close>.\<close>

definition hour_label :: "string \<Rightarrow> string" where
  "hour_label ht = (case map_of HOUR_LABELS ht of None \<Rightarrow> ht | Some l \<Rightarrow> l)"

text \<open>\<^verbatim>\<open>self.hours.get(hour_type, 0)\<close>.\<close>

definition hours_get :: "technician \<Rightarrow> string \<Rightarrow> hour_value" where
  "hours_get t ht = (case hours t ht of None \<Rightarrow> HNum 0 | Some v \<Rightarrow> v)"

text \<open>\<^verbatim>\<open>value > 0\<close>: comparing \<^verbatim>\<open>None\<close> with a number raises.\<close>

fun py_gt0 :: "hour_value \<Rightarrow> pyerr + bool" where
  "py_gt0 HNone = Inl TypeError"
| "py_gt0 (HNum v) = Inr (0 < v)"

text \<open>\<^verbatim>\<open>float(value or 0)\<close>.\<close>

fun float_or0 :: "hour_value \<Rightarrow> pyfloat" where
  "float_or0 HNone = b64 0"
| "float_or0 (HNum v) = (if v \<noteq> 0 then b64 v else b64 0)"

fun has_any_hours_in :: "technician \<Rightarrow> string list \<Rightarrow> pyerr + bool" where
  "has_any_hours_in t [] = Inr False"
| "has_any_hours_in t (ht # hts) =
     (case py_gt0 (hours_get t ht) of
        Inl e \<Rightarrow> Inl e
      | Inr True \<Rightarrow> Inr True
      | Inr False \<Rightarrow> has_any_hours_in t hts)"

definition has_any_hours :: "technician \<Rightarrow> pyerr + bool" where
  "has_any_hours t = has_any_hours_in t HOUR_TYPES"

definition get_total_hours :: "technician \<Rightarrow> pyfloat" where
  "get_total_hours t = foldl (\<lambda>total ht. fadd total (float_or0 (hours_get t ht))) 0 HOUR_TYPES"

text \<open>One pass of the loop of \<^verbatim>\<open>format_hours_line\<close>: the part appended for an hour type.\<close>

definition hours_part :: "technician \<Rightarrow> string \<Rightarrow> string list" where
  "hours_part t ht =
     (case hours_get t ht of
        HNone \<Rightarrow> []
      | HNum v \<Rightarrow>
          if v \<noteq> 0 \<and> 0 < b64 v
          then [hour_label ht @ '' = '' @ format_number (b64 v)] else [])"

definition format_hours_line :: "technician \<Rightarrow> string" where
  "format_hours_line t = py_join ''; '' (concat (map (hours_part t) HOUR_TYPES))"

definition format_tech_line :: "technician \<Rightarrow> string" where
  "format_tech_line t =
     (let nm = getattr_or (name t) ''Unknown''; hours_str = format_hours_line t
      in if hours_str \<noteq> [] then nm @ '': '' @ hours_str else nm)"

text \<open>
  A totals dictionary (\<^verbatim>\<open>{ht: 0 for ht in HOUR_TYPES}\<close>) always holds exactly the six
  keys of \<open>HOUR_TYPES\<close> and is only read and updated at them, so it is a function from
  the key to the number and a subscript cannot fail.
\<close>

type_synonym totals = "string \<Rightarrow> pyfloat"

definition zero_totals :: totals where
  "zero_totals = (\<lambda>ht. 0)"

definition format_totals_line :: "totals \<Rightarrow> string" where
  "format_totals_line tot =
     (let order = [''em'', ''gpr'', ''travel'', ''survey'', ''concrete_gpr'', ''standby''];
          part = (\<lambda>k. if 0 < tot k then [hour_label k @ '' = '' @ format_number (tot k)] else [])
      in py_join ''; '' (concat (map part order)))"

section \<open>Time of day\<close>

text \<open>
  A time attribute is absent or \<^verbatim>\<open>None\<close>, a string, a \<^verbatim>\<open>datetime.time\<close> (hour and
  minute) or some other object, given by its truth value and its \<^verbatim>\<open>str()\<close>.
\<close>

datatype time_val = TNone | TStr string | TTime nat nat | TObj bool string

text \<open>
  The body of the \<^verbatim>\<open>try\<close> block up to the assignment of hour and minute; \<open>None\<close> when
  one of the two \<^verbatim>\<open>int()\<close> calls raises.
\<close>

definition parse_hour_minute :: "string \<Rightarrow> (int \<times> int) option" where
  "parse_hour_minute tv =
     (let parts = py_strip (py_remove CHR '':'' tv) in
      if length parts \<le> 2 then
        (case py_int parts of None \<Rightarrow> None | Some hour \<Rightarrow> Some (hour, 0))
      else
        (case py_int (take (length parts - 2) parts) of
           None \<Rightarrow> None
         | Some hour \<Rightarrow>
             (case py_int (drop (length parts - 2) parts) of
                None \<Rightarrow> None
              | Some minute \<Rightarrow> Some (hour, minute))))"

fun format_time_12hr :: "time_val \<Rightarrow> string" where
  "format_time_12hr TNone = []"
| "format_time_12hr (TStr s) =
     (if s = [] then []
      else
        let tv = py_lower (py_strip s) in
        if py_in ''am'' tv \<or> py_in ''pm'' tv then tv
        else
          (case parse_hour_minute tv of
             None \<Rightarrow> tv
           | Some (hour, minute) \<Rightarrow>
               if hour = 0 \<or> hour = 24 then ''12:'' @ fmt_02d minute @ '' am''
               else if hour < 12 then str_int hour @ '':'' @ fmt_02d minute @ '' am''
               else if hour = 12 then ''12:'' @ fmt_02d minute @ '' pm''
               else str_int (hour - 12) @ '':'' @ fmt_02d minute @ '' pm''))"
| "format_time_12hr (TTime hour minute) =
     (if hour = 0 then ''12:'' @ fmt_02d (int minute) @ '' am''
      else if hour < 12 then str_int (int hour) @ '':'' @ fmt_02d (int minute) @ '' am''
      else if hour = 12 then ''12:'' @ fmt_02d (int minute) @ '' pm''
      else str_int (int hour - 12) @ '':'' @ fmt_02d (int minute) @ '' pm'')"
| "format_time_12hr (TObj b s) = (if b then s else [])"

section \<open>WorkDay\<close>

text \<open>
  The date is only handed to docassemble's \<^verbatim>\<open>format_date\<close>, which is not part of this
  package: its type is a parameter and the formatter is an argument \<open>fd\<close> of the methods
  that call it.
\<close>

record 'd workday =
  start_time :: "time_val option"
  end_time :: "time_val option"
  date :: "'d option"
  technicians :: "technician list"

definition format_time_range :: "'d workday \<Rightarrow> string" where
  "format_time_range day =
     (let start = format_time_12hr (getattr_or (start_time day) TNone);
          end = format_time_12hr (getattr_or (end_time day) TNone)
      in if start \<noteq> [] \<and> end \<noteq> [] then start @ '' to '' @ end
         else if start \<noteq> [] then ''from '' @ start
         else if end \<noteq> [] then ''to '' @ end
         else [])"

text \<open>The inner loop \<^verbatim>\<open>for hour_type in HOUR_TYPES: totals[hour_type] += float(...)\<close>.\<close>

definition add_tech_hours :: "totals \<Rightarrow> technician \<Rightarrow> totals" where
  "add_tech_hours tot tech =
     foldl (\<lambda>tot ht. tot(ht := fadd (tot ht) (float_or0 (hours_get tech ht)))) tot HOUR_TYPES"

definition get_all_hours_by_type :: "'d workday \<Rightarrow> totals" where
  "get_all_hours_by_type day = foldl add_tech_hours zero_totals (technicians day)"

section \<open>MultiDayJob\<close>

record 'd multi_day_job =
  work_days :: "'d workday list"
  is_multi_day :: bool

text \<open>
  \<^verbatim>\<open>tech_dict\<close> keeps its keys in insertion order: an association list whose new keys
  go to the end. The loop body for one technician:
\<close>

definition tech_dict_add :: "(string \<times> totals) list \<Rightarrow> technician \<Rightarrow> (string \<times> totals) list" where
  "tech_dict_add tech_dict tech =
     (let nm = getattr_or (name tech) ''Unknown'';
          td = (if map_of tech_dict nm = None then AList.update nm zero_totals tech_dict
                else tech_dict)
      in AList.map_entry nm (\<lambda>h. add_tech_hours h tech) td)"

definition get_all_technicians :: "'d multi_day_job \<Rightarrow> (string \<times> totals) list" where
  "get_all_technicians job =
     foldl (\<lambda>tech_dict day. foldl tech_dict_add tech_dict (technicians day)) [] (work_days job)"

definition add_day_totals :: "totals \<Rightarrow> 'd workday \<Rightarrow> totals" where
  "add_day_totals tot day =
     (let day_totals = get_all_hours_by_type day
      in foldl (\<lambda>tot ht. tot(ht := fadd (tot ht) (day_totals ht))) tot HOUR_TYPES)"

definition get_combined_totals :: "'d multi_day_job \<Rightarrow> totals" where
  "get_combined_totals job = foldl add_day_totals zero_totals (work_days job)"

definition date_str :: "('d \<Rightarrow> string) \<Rightarrow> 'd workday \<Rightarrow> string" where
  "date_str fd day = (case date day of None \<Rightarrow> ''Unknown'' | Some d \<Rightarrow> fd d)"

definition CR :: string where
  "CR = [CHR 0x0D]"

definition format_time_on_site :: "('d \<Rightarrow> string) \<Rightarrow> 'd multi_day_job \<Rightarrow> string" where
  "format_time_on_site fd job =
     (if \<not> is_multi_day job \<or> length (work_days job) \<le> 1 then
        (case work_days job of [] \<Rightarrow> [] | day # _ \<Rightarrow> format_time_range day)
      else
        py_join CR
          (map (\<lambda>day. ''Day ('' @ date_str fd day @ ''): '' @ format_time_range day)
             (work_days job)))"

definition bind_err :: "pyerr + 'a \<Rightarrow> ('a \<Rightarrow> pyerr + 'b) \<Rightarrow> pyerr + 'b" where
  "bind_err m f = (case m of Inl e \<Rightarrow> Inl e | Inr v \<Rightarrow> f v)"

text \<open>\<^verbatim>\<open>[t for t in techs if t.has_any_hours()]\<close>, stopping at the first exception.\<close>

fun techs_with_hours :: "technician list \<Rightarrow> pyerr + technician list" where
  "techs_with_hours [] = Inr []"
| "techs_with_hours (t # ts) =
     bind_err (has_any_hours t) (\<lambda>b.
     bind_err (techs_with_hours ts) (\<lambda>rest.
       Inr (if b then t # rest else rest)))"

text \<open>The first loop of the multi-day branch of \<^verbatim>\<open>format_type_time\<close>.\<close>

fun day_lines :: "('d \<Rightarrow> string) \<Rightarrow> 'd workday list \<Rightarrow> pyerr + string list" where
  "day_lines fd [] = Inr []"
| "day_lines fd (day # days) =
     bind_err (techs_with_hours (technicians day)) (\<lambda>ts.
     bind_err (day_lines fd days) (\<lambda>rest.
       let tech_parts = map format_tech_line ts in
       Inr (if tech_parts \<noteq> []
            then (''Day ('' @ date_str fd day @ ''): '' @ py_join '' | '' tech_parts) # rest
            else rest)))"

text \<open>The lines added under \<^verbatim>\<open># Add combined totals\<close>.\<close>

definition totals_lines :: "'d multi_day_job \<Rightarrow> string list" where
  "totals_lines job =
     (let all_techs = get_all_technicians job in
      if all_techs \<noteq> [] then
        [[], ''TOTALS:'']
        @ concat (map (\<lambda>(nm, hrs).
             let tech_total = format_totals_line hrs
             in if tech_total \<noteq> [] then [''  '' @ nm @ '': '' @ tech_total] else [])
            all_techs)
        @ (let combined_line = format_totals_line (get_combined_totals job)
           in if combined_line \<noteq> [] then [''  Combined: '' @ combined_line] else [])
      else [])"

definition format_type_time :: "('d \<Rightarrow> string) \<Rightarrow> 'd multi_day_job \<Rightarrow> pyerr + string" where
  "format_type_time fd job =
     (if \<not> is_multi_day job \<or> length (work_days job) \<le> 1 then
        (case work_days job of
           [] \<Rightarrow> Inr (py_join CR [])
         | day # _ \<Rightarrow>
             bind_err (techs_with_hours (technicians day)) (\<lambda>ts.
             bind_err (techs_with_hours (technicians day)) (\<lambda>counted.
               let lines = map format_tech_line ts;
                   totals_line = format_totals_line (get_all_hours_by_type day)
               in Inr (py_join CR
                    (if 2 \<le> length counted \<and> totals_line \<noteq> []
                     then lines @ [''Total: '' @ totals_line] else lines)))))
      else
        bind_err (day_lines fd (work_days job)) (\<lambda>lines.
          Inr (py_join CR (lines @ totals_lines job))))"

section \<open>UtilityType and UtilityMatrix\<close>

record utility_type =
  key :: string
  display_name :: string
  available_methods :: "string list"
  methods :: "string \<rightharpoonup> bool"
  summary :: "string option"

text \<open>\<^verbatim>\<open>self.methods.get(method, False)\<close>.\<close>

definition method_selected :: "utility_type \<Rightarrow> string \<Rightarrow> bool" where
  "method_selected u m = (case methods u m of None \<Rightarrow> False | Some b \<Rightarrow> b)"

definition has_any_method :: "utility_type \<Rightarrow> bool" where
  "has_any_method u = list_ex (method_selected u) (available_methods u)"

definition should_display :: "utility_type \<Rightarrow> bool" where
  "should_display u =
     (has_any_method u \<or> (case summary u of None \<Rightarrow> False | Some s \<Rightarrow> s \<noteq> []))"

definition method_label_map :: "(string \<times> string) list" where
  "method_label_map = [(''em'', ''Located with EM''), (''gpr'', ''Located with GPR''),
     (''visual'', ''Located visually''), (''not_located'', ''Not located''),
     (''not_in_area'', ''Not in proposed work area'')]"

definition get_method_labels :: "utility_type \<Rightarrow> string list" where
  "get_method_labels u =
     map (\<lambda>m. case map_of method_label_map m of None \<Rightarrow> m | Some l \<Rightarrow> l)
       (filter (method_selected u) (available_methods u))"

definition format_header :: "utility_type \<Rightarrow> string" where
  "format_header u =
     (let header = py_upper (display_name u); labels = get_method_labels u
      in if labels \<noteq> [] then header @ '' ('' @ py_join '', '' labels @ '')'' else header)"

definition utility_format_section :: "utility_type \<Rightarrow> string" where
  "utility_format_section u =
     (if \<not> should_display u then []
      else
        let header = format_header u; summ = getattr_or (summary u) []
        in if summ \<noteq> [] then header @ '':'' @ CR @ summ else header @ '':'')"

definition all_methods :: "string list" where
  "all_methods = [''em'', ''gpr'', ''visual'', ''not_located'', ''not_in_area'']"

definition UTILITY_TYPES :: "(string \<times> string \<times> string list) list" where
  "UTILITY_TYPES =
     [(''electrical'', ''Electrical'', all_methods),
      (''communications'', ''Communications'', all_methods),
      (''gas'', ''Gas / Pipeline'', all_methods),
      (''water'', ''Water'', all_methods),
      (''storm'', ''Storm'', all_methods),
      (''sanitary'', ''Sanitary'', all_methods),
      (''ditch'', ''Ditch'', [''visual'', ''not_located'']),
      (''unknown'', ''Unknown / Other'', all_methods)]"

text \<open>
  The matrix holds one attribute per key of \<open>UTILITY_TYPES\<close>, set by its constructor
  and read back in the same order: an association list from the key to the utility.
\<close>

type_synonym utility_matrix = "(string \<times> utility_type) list"

definition UtilityMatrix_init :: utility_matrix where
  "UtilityMatrix_init =
     map (\<lambda>(k, dn, ms). (k, \<lparr>key = k, display_name = dn, available_methods = ms,
                               methods = Map.empty, summary = None\<rparr>)) UTILITY_TYPES"

text \<open>\<^verbatim>\<open>getattr(self, key)\<close> raises when the attribute does not exist.\<close>

fun active_from :: "utility_matrix \<Rightarrow> (string \<times> string \<times> string list) list
    \<Rightarrow> pyerr + utility_type list" where
  "active_from um [] = Inr []"
| "active_from um ((k, dn, ms) # rest) =
     (case map_of um k of
        None \<Rightarrow> Inl AttributeError
      | Some u \<Rightarrow>
          bind_err (active_from um rest) (\<lambda>active.
            Inr (if should_display u then u # active else active)))"

definition get_active_utilities :: "utility_matrix \<Rightarrow> pyerr + utility_type list" where
  "get_active_utilities um = active_from um UTILITY_TYPES"

section \<open>HydrovacRecommendation\<close>

record hydrovac_recommendation =
  reasons :: "string \<rightharpoonup> bool"
  recommended :: bool
  custom_notes :: string

definition STANDARD_REASONS :: "(string \<times> string) list" where
  "STANDARD_REASONS =
     [(''obstructions'', ''Obstructions in scan area''),
      (''unlocated'', ''Unlocated utilities in area''),
      (''deep_utilities'', ''Possible utilities in area deeper than the scan capabilities due to geophysical subsurface conditions''),
      (''no_documentation'', ''No BC One Call/Site Plans/As-Builts for the area'')]"

definition HydrovacRecommendation_init :: hydrovac_recommendation where
  "HydrovacRecommendation_init = \<lparr>reasons = Map.empty, recommended = False, custom_notes = []\<rparr>"

definition get_selected_reasons :: "hydrovac_recommendation \<Rightarrow> string list" where
  "get_selected_reasons h =
     map (\<lambda>(k, txt). py_lower txt)
       (filter (\<lambda>(k, txt). case reasons h k of None \<Rightarrow> False | Some b \<Rightarrow> b) STANDARD_REASONS)"

definition hydrovac_format_section :: "hydrovac_recommendation \<Rightarrow> string" where
  "hydrovac_format_section h =
     (if \<not> recommended h then []
      else
        let selected = get_selected_reasons h;
            output = ''HYDROVAC RECOMMENDED:'' @ CR
              @ (if selected \<noteq> []
                 then ''Hydrovac exposure is recommended due to: '' @ oxford_join selected @ ''.''
                 else ''Hydrovac exposure is recommended.'')
        in if custom_notes h \<noteq> [] then output @ CR @ custom_notes h else output)"

section \<open>LocateReport\<close>

text \<open>
  The free attributes read with \<^verbatim>\<open>getattr(self, ..., default)\<close> are optional fields;
  \<open>attrs\<close> holds the attributes read under a computed name (\<^verbatim>\<open>supp_*\<close>, \<^verbatim>\<open>mat_*\<close>).
  The photo pages, the drawings and the counters take no part in the formatting.
\<close>

record 'd locate_report =
  utilities :: utility_matrix
  job :: "'d multi_day_job"
  hydrovac :: hydrovac_recommendation
  missing_docs :: "string \<rightharpoonup> bool"
  bc1_provider :: "pyval option"
  bc1_number :: "pyval option"
  property_type :: "pyval option"
  recommendations :: "pyval option"
  travel_notes :: "pyval option"
  site_conditions :: "pyval option"
  attrs :: "string \<rightharpoonup> pyval"

definition MultiDayJob_init :: "'d multi_day_job" where
  "MultiDayJob_init = \<lparr>work_days = [], is_multi_day = False\<rparr>"

definition LocateReport_init :: "'d locate_report" where
  "LocateReport_init =
     \<lparr>utilities = UtilityMatrix_init, job = MultiDayJob_init,
      hydrovac = HydrovacRecommendation_init, missing_docs = Map.empty,
      bc1_provider = None, bc1_number = None, property_type = None,
      recommendations = None, travel_notes = None, site_conditions = None,
      attrs = Map.empty\<rparr>"

definition format_bc1_display :: "'d locate_report \<Rightarrow> string" where
  "format_bc1_display r =
     (let provider = getattr_or (bc1_provider r) PyNone;
          number = getattr_or (bc1_number r) (PyStr [])
      in if provider = PyStr ''None'' then ''No BC 1 Call completed''
         else
           let suffix = (if provider = PyStr ''Client'' then '' (Provided by Client)''
                         else if provider = PyStr ''Quadra'' then '' (Provided by Quadra)''
                         else [])
           in if \<not> truthy number \<and> suffix = [] then []
              else if \<not> truthy number then py_strip_chars '' ()'' suffix
              else py_str number @ suffix)"

definition doc_labels :: "(string \<times> string) list" where
  "doc_labels = [(''hydro'', ''BC Hydro''), (''comm'', ''Communications''), (''gas'', ''Fortis''),
     (''municipal'', ''Municipal''), (''pipeline'', ''Pipeline''), (''asbuilts'', ''As-builts'')]"

definition format_missing_docs_sentence :: "'d locate_report \<Rightarrow> string" where
  "format_missing_docs_sentence r =
     (let missing = map snd
            (filter (\<lambda>(k, l). case missing_docs r k of None \<Rightarrow> False | Some b \<Rightarrow> b) doc_labels)
      in if missing = [] then []
         else oxford_join missing
           @ '' documentation missing on site. It is the responsibility ''
           @ ''of the Ground Disturber, prior to ground disturbance, to obtain and ''
           @ ''review said documentation.'')"

definition format_recommendations :: "'d locate_report \<Rightarrow> string" where
  "format_recommendations r =
     (let v = getattr_or (recommendations r) (PyStr []);
          reco = (if truthy v then v else PyStr []);
          missing_sentence = format_missing_docs_sentence r;
          reco = (if missing_sentence \<noteq> []
                  then (if truthy reco then PyStr (py_str reco @ CR @ CR @ missing_sentence)
                        else PyStr missing_sentence)
                  else reco)
      in if truthy reco then ''RECOMMENDATIONS:'' @ CR @ py_str reco else [])"

definition supp_fields :: "(string \<times> string) list" where
  "supp_fields = [(''parking'', ''Parking''), (''traffic_control'', ''Traffic control''),
     (''permits'', ''Permitting''), (''desktop'', ''Desktop review''), (''cad'', ''AutoCAD''),
     (''coring'', ''Coring''), (''vapour_probes'', ''Vapour probes''),
     (''camera'', ''Camera inspection''), (''data_processing'', ''Data processing''),
     (''orientation'', ''Orientation Time''), (''sketch'', ''Report Drafting''),
     (''kms'', ''Kilometres''), (''loa'', ''LOA'')]"

definition format_supplemental :: "'d locate_report \<Rightarrow> string" where
  "format_supplemental r =
     py_join ''; '' (concat (map (\<lambda>(k, label).
        let v = getattr_or (attrs r (''supp_'' @ k)) PyNone
        in if truthy v then [label @ '' = '' @ py_str v] else []) supp_fields))"

definition mat_fields :: "(string \<times> string) list" where
  "mat_fields = [(''pin_flags'', ''Pin flags''), (''lathe_24'', ''Lathe 24\"''),
     (''lathe_48'', ''Lathe 48\"'')]"

definition format_materials :: "'d locate_report \<Rightarrow> string" where
  "format_materials r =
     py_join ''; '' (concat (map (\<lambda>(k, label).
        let v = getattr_or (attrs r (''mat_'' @ k)) PyNone
        in if truthy v then [label @ '' x'' @ py_str v] else []) mat_fields))"

definition format_property_type :: "'d locate_report \<Rightarrow> string" where
  "format_property_type r =
     (let prop = getattr_or (property_type r) PyNone
      in if prop = PyStr ''Private'' then ''Private property''
         else if prop = PyStr ''Public'' then ''Public property''
         else if prop = PyStr ''Both'' then ''Public and private property''
         else [])"

definition HEADER_WIDTH :: nat where
  "HEADER_WIDTH = 18"

text \<open>The loop \<^verbatim>\<open>while len(s) < HEADER_WIDTH: s += " "\<close>.\<close>

function pad_header :: "string \<Rightarrow> string" where
  "pad_header s = (if length s < HEADER_WIDTH then pad_header (s @ '' '') else s)"
  by pat_completeness auto
termination
  by (relation "measure (\<lambda>s. HEADER_WIDTH - length s)") auto

declare pad_header.simps [simp del]

definition make_line :: "string \<Rightarrow> string \<Rightarrow> string" where
  "make_line header content =
     (if content = [] then [] else pad_header (header @ '':'') @ content)"

definition make_continuation_line :: "string \<Rightarrow> string" where
  "make_continuation_line content =
     (if content = [] then [] else replicate HEADER_WIDTH CHR '' '' @ content)"

definition format_billing_details :: "('d \<Rightarrow> string) \<Rightarrow> 'd locate_report \<Rightarrow> pyerr + string" where
  "format_billing_details fd r =
     (let time_on_site = format_time_on_site fd (job r);
          lines1 = (if time_on_site \<noteq> [] then [make_line ''TIME ON SITE'' time_on_site] else [])
      in bind_err (format_type_time fd (job r)) (\<lambda>type_time.
           let lines2 = (if type_time \<noteq> []
                         then (let type_time_lines = py_split CHR 0x0D type_time
                               in make_line ''TYPE/TIME'' (hd type_time_lines)
                                  # map make_continuation_line (tl type_time_lines))
                         else []);
               supp_items = format_supplemental r;
               lines3 = (if supp_items \<noteq> [] then [make_line ''SUPPLEMENTAL'' supp_items] else []);
               mat_items = format_materials r;
               lines4 = (if mat_items \<noteq> [] then [make_line ''MATERIALS'' mat_items] else []);
               prop_type = format_property_type r;
               lines5 = (if prop_type \<noteq> [] then [make_line ''PROPERTY TYPE'' prop_type] else [])
           in Inr (py_join CR (lines1 @ lines2 @ lines3 @ lines4 @ lines5))))"

definition format_combined_report :: "'d locate_report \<Rightarrow> pyerr + string" where
  "format_combined_report r =
     (let travel = getattr_or (travel_notes r) (PyStr []);
          s1 = (if truthy travel then [''TRAVEL NOTES:'' @ CR @ py_str travel] else []);
          site_cond = getattr_or (site_conditions r) (PyStr []);
          s2 = (if truthy site_cond
                then [''SITE CONDITIONS (Obstructions, inaccessible areas, changes to scope etc.):''
                      @ CR @ py_str site_cond]
                else [])
      in bind_err (get_active_utilities (utilities r)) (\<lambda>active.
           let s3 = filter (\<lambda>section. section \<noteq> []) (map utility_format_section active);
               hydrovac_section = hydrovac_format_section (hydrovac r);
               s4 = (if hydrovac_section \<noteq> [] then [hydrovac_section] else []);
               reco_section = format_recommendations r;
               s5 = (if reco_section \<noteq> [] then [reco_section] else [])
           in Inr (py_join (CR @ CR) (s1 @ s2 @ s3 @ s4 @ s5))))"

section \<open>The specification's digit rule\<close>


section \<open>The specification's billing layout\<close>

text \<open>
  The layout of the billing block in the words of the specification, for comparison with
  \<open>format_billing_details\<close>: a header is the name and a colon padded with blanks to the
  global width; a section with empty content is left out; the first line of the TYPE/TIME
  content stands on the header line and each further line is indented to the same column.
  An empty line carries neither header nor indentation.
\<close>

definition spec_header :: "string \<Rightarrow> string" where
  "spec_header h = h @ '':'' @ replicate (HEADER_WIDTH - Suc (length h)) CHR '' ''"

definition spec_section :: "string \<Rightarrow> string \<Rightarrow> string list" where
  "spec_section h content = (if content = [] then [] else [spec_header h @ content])"

definition spec_indent :: "string \<Rightarrow> string" where
  "spec_indent l = (if l = [] then [] else replicate HEADER_WIDTH CHR '' '' @ l)"

definition spec_type_time_section :: "string \<Rightarrow> string list" where
  "spec_type_time_section type_time =
     (if type_time = [] then []
      else (let ls = py_split CHR 0x0D type_time
            in (if hd ls = [] then [] else spec_header ''TYPE/TIME'' @ hd ls)
               # map spec_indent (tl ls)))"

section \<open>The specification's multi-day text\<close>




definition all_techs :: "'d multi_day_job \<Rightarrow> technician list" where
  "all_techs j = concat (map technicians (work_days j))"



definition sum_hours :: "technician list \<Rightarrow> totals" where
  "sum_hours ts = (\<lambda>ht. foldl fadd 0 (map (\<lambda>t. float_or0 (hours_get t ht)) ts))"


definition spec_grand_totals :: "'d multi_day_job \<Rightarrow> totals" where
  "spec_grand_totals j =
     (\<lambda>ht. foldl fadd 0 (map (\<lambda>day. sum_hours (technicians day) ht) (work_days j)))"




section \<open>Example data\<close>

text \<open>
  A two-day job: on the first day one technician with two hours of EM, on the second day
  nobody; no times and no dates are recorded.
\<close>

definition al2 :: technician where
  "al2 = \<lparr>name = Some ''Al'', hours = [''em'' \<mapsto> HNum 2]\<rparr>"

definition dayA :: "'d workday" where
  "dayA = \<lparr>start_time = None, end_time = None, date = None, technicians = [al2]\<rparr>"

definition dayB :: "'d workday" where
  "dayB = \<lparr>start_time = None, end_time = None, date = None, technicians = []\<rparr>"

definition jobA :: "'d multi_day_job" where
  "jobA = \<lparr>work_days = [dayA, dayB], is_multi_day = True\<rparr>"

text \<open>The report that holds this job and nothing else, and a formatter for its dates.\<close>

definition reportA :: "unit locate_report" where
  "reportA = LocateReport_init\<lparr>job := jobA\<rparr>"

definition fdA :: "unit \<Rightarrow> string" where
  "fdA u = ''1/1/24''"





section \<open>Verified properties\<close>

subsection \<open>Number trimming\<close>










lemma b64_0: "b64 0 = 0"
  by (simp add: b64_def)

lemma fmt_2f_0: "fmt_2f 0 = ''0.00''"
  by code_simp

lemma format_number_round0:
  assumes "py_round (fmul v 100) = 0"
  shows "format_number v = ''0''"
proof (cases "v = 0")
  case True
  then show ?thesis by (simp add: format_number_def)
next
  case False
  have "round2 v = 0" using assms by (simp add: round2_def fdiv_def b64_0)
  then show ?thesis using False
    by (simp add: format_number_def fmt_2f_0 py_rstrip_chars_def py_rstrip_by_def)
qed

lemma tiny_0004: "0 < b64 (4/1000) \<and> py_round (fmul (b64 (4/1000)) 100) = 0
    \<and> b64 (b64 (4/1000)) = b64 (4/1000)"
  by code_simp



text \<open>
  C10 fails as stated: at 0.004 the product with 100 rounds to the integer 0, the
  two-decimal text is \<open>0.00\<close>, and stripping the zeros and then the point leaves \<open>0\<close>,
  not the empty string; the hours line reads \<open>EM = 0\<close>.
\<close>

theorem format_number_tiny_counterexample:
  "0 < b64 (4/1000) \<and> py_round (fmul (b64 (4/1000)) 100) = 0
   \<and> format_number (b64 (4/1000)) \<noteq> []
   \<and> format_hours_line \<lparr>name = None, hours = [''em'' \<mapsto> HNum (b64 (4/1000))]\<rparr> = ''EM = 0''"
proof -
  have "format_number (b64 (4/1000)) = ''0''"
    using tiny_0004 by (simp add: format_number_round0)
  moreover have "format_hours_line \<lparr>name = None, hours = [''em'' \<mapsto> HNum (b64 (4/1000))]\<rparr> = ''EM = 0''"
    by code_simp
  ultimately show ?thesis using tiny_0004 by simp
qed

text \<open>
  C10, amended. For every strictly positive float \<open>v\<close> with \<^verbatim>\<open>round(v * 100) = 0\<close>,
  \<^verbatim>\<open>format_number(v)\<close> is \<open>0\<close>, the text of zero, and a technician whose only entry is
  \<open>v\<close> under one of the six hour types gets the hours line made of that type's label,
  \<open> = \<close> and \<open>0\<close>.
\<close>

theorem format_number_tiny:
  assumes "0 < v" and "py_round (fmul v 100) = 0" and "b64 v = v"
  shows "format_number v = ''0''
     \<and> (\<forall>ht \<in> set HOUR_TYPES.
          format_hours_line \<lparr>name = nm, hours = [ht \<mapsto> HNum v]\<rparr> = hour_label ht @ '' = 0'')"
proof -
  have fn: "format_number v = ''0''" using assms(2) by (rule format_number_round0)
  have part: "\<And>ht k. hours_part \<lparr>name = nm, hours = [ht \<mapsto> HNum v]\<rparr> k
      = (if k = ht then [hour_label ht @ '' = 0''] else [])"
    using assms fn by (simp add: hours_part_def hours_get_def)
  have "\<And>ht. ht \<in> set HOUR_TYPES \<Longrightarrow>
      format_hours_line \<lparr>name = nm, hours = [ht \<mapsto> HNum v]\<rparr> = hour_label ht @ '' = 0''"
    unfolding format_hours_line_def part by (auto simp: HOUR_TYPES_def)
  then show ?thesis using fn by blast
qed

theorem format_number_tiny_witness:
  "0 < b64 (4/1000) \<and> py_round (fmul (b64 (4/1000)) 100) = 0
   \<and> b64 (b64 (4/1000)) = b64 (4/1000)
   \<and> format_number (b64 (4/1000)) = ''0''
   \<and> format_hours_line \<lparr>name = Some ''Al'', hours = [''gpr'' \<mapsto> HNum (b64 (4/1000))]\<rparr>
       = hour_label ''gpr'' @ '' = 0''"
proof -
  have h: "0 < b64 (4/1000)" "py_round (fmul (b64 (4/1000)) 100) = 0"
    "b64 (b64 (4/1000)) = b64 (4/1000)"
    using tiny_0004 by simp_all
  have m: "''gpr'' \<in> set HOUR_TYPES" by (simp add: HOUR_TYPES_def)
  show ?thesis using format_number_tiny [OF h, of "Some ''Al''"] h m by blast
qed

subsection \<open>BC 1 Call display\<close>

text \<open>
  C9. When \<^verbatim>\<open>bc1_number\<close> is absent, empty or otherwise false, the display is the bare
  attribution for the providers \<open>Client\<close> and \<open>Quadra\<close>, without parentheses or number,
  and the empty string when the provider is absent too.
\<close>

theorem bc1_display_without_number:
  assumes "\<not> truthy (getattr_or (bc1_number r) (PyStr []))"
  shows "(bc1_provider r = Some (PyStr ''Client'') \<longrightarrow> format_bc1_display r = ''Provided by Client'')
     \<and> (bc1_provider r = Some (PyStr ''Quadra'') \<longrightarrow> format_bc1_display r = ''Provided by Quadra'')
     \<and> (bc1_provider r = None \<longrightarrow> format_bc1_display r = [])"
  using assms
  by (simp add: format_bc1_display_def getattr_or_def py_strip_chars_def py_strip_by_def
      py_rstrip_by_def)

theorem bc1_display_without_number_witness:
  "\<not> truthy (getattr_or (bc1_number ((LocateReport_init :: unit locate_report)
        \<lparr>bc1_provider := Some (PyStr ''Client''), bc1_number := Some (PyStr [])\<rparr>)) (PyStr []))
   \<and> format_bc1_display ((LocateReport_init :: unit locate_report)
        \<lparr>bc1_provider := Some (PyStr ''Client''), bc1_number := Some (PyStr [])\<rparr>)
       = ''Provided by Client''
   \<and> format_bc1_display ((LocateReport_init :: unit locate_report)
        \<lparr>bc1_provider := Some (PyStr ''Quadra'')\<rparr>) = ''Provided by Quadra''
   \<and> format_bc1_display (LocateReport_init :: unit locate_report) = []"
  using bc1_display_without_number [of "(LocateReport_init :: unit locate_report)
        \<lparr>bc1_provider := Some (PyStr ''Client''), bc1_number := Some (PyStr [])\<rparr>"]
    bc1_display_without_number [of "(LocateReport_init :: unit locate_report)
        \<lparr>bc1_provider := Some (PyStr ''Quadra'')\<rparr>"]
    bc1_display_without_number [of "LocateReport_init :: unit locate_report"]
  by (simp add: LocateReport_init_def getattr_or_def)

subsection \<open>Combined report\<close>

lemma default_matrix_inactive: "get_active_utilities UtilityMatrix_init = Inr []"
  by (simp add: get_active_utilities_def UtilityMatrix_init_def UTILITY_TYPES_def bind_err_def
      should_display_def has_any_method_def all_methods_def method_selected_def)

text \<open>
  C7. A freshly constructed report whose only assignment is
  \<^verbatim>\<open>travel_notes = "Rain delay"\<close> is rendered as the travel-notes header, a carriage
  return and the note: no other section and no separator.
\<close>

theorem rain_delay_report:
  "format_combined_report (LocateReport_init\<lparr>travel_notes := Some (PyStr ''Rain delay'')\<rparr>)
     = Inr (''TRAVEL NOTES:'' @ [CHR 0x0D] @ ''Rain delay'')"
  by (simp add: format_combined_report_def LocateReport_init_def default_matrix_inactive
      getattr_or_def bind_err_def hydrovac_format_section_def HydrovacRecommendation_init_def
      format_recommendations_def format_missing_docs_sentence_def doc_labels_def CR_def)

subsection \<open>Twelve-hour time\<close>



lemma is_digit_cases: "is_digit c \<Longrightarrow> c \<in> set ''0123456789''"
  by (simp add: is_digit_def)

























lemma strip_by_keeps: "c \<in> set s \<Longrightarrow> \<not> P c \<Longrightarrow> c \<in> set (py_strip_by P s)"
proof -
  assume c: "c \<in> set s" "\<not> P c"
  have a: "\<And>xs. c \<in> set xs \<Longrightarrow> c \<in> set (dropWhile P xs)"
    using c(2) by (metis (full_types) set_takeWhileD takeWhile_dropWhile_id Un_iff set_append)
  have "c \<in> set (dropWhile P s)" using a c(1) by blast
  then have "c \<in> set (rev (dropWhile P s))" by simp
  then have "c \<in> set (dropWhile P (rev (dropWhile P s)))" by (rule a)
  then show ?thesis by (simp add: py_strip_by_def py_rstrip_by_def)
qed

lemma int_digits_bad:
  "c \<in> set s \<Longrightarrow> \<not> is_digit c \<Longrightarrow> c \<noteq> CHR ''_'' \<Longrightarrow> int_digits s = None"
  by (auto simp: int_digits_def list_all_iff)

lemma py_int_bad:
  assumes "c \<in> set s" "\<not> is_digit c" "c \<noteq> CHR ''+''" "c \<noteq> CHR ''-''" "c \<noteq> CHR ''_''"
    "\<not> int_isspace c"
  shows "py_int s = None"
proof (cases "py_strip_by int_isspace s")
  case Nil
  then show ?thesis by (simp add: py_int_def)
next
  case (Cons x xs)
  have c: "c \<in> set (x # xs)" using strip_by_keeps [of c s int_isspace, OF assms(1,6)] Cons by simp
  show ?thesis
  proof (cases "x = CHR ''-'' \<or> x = CHR ''+''")
    case True
    then have "c \<in> set xs" using c assms(3,4) by auto
    then have "int_digits xs = None" using assms(2,5) by (rule int_digits_bad)
    then show ?thesis using True Cons by (auto simp: py_int_def)
  next
    case False
    have "int_digits (x # xs) = None" using c assms(2,5) by (rule int_digits_bad)
    then show ?thesis using False Cons by (simp add: py_int_def)
  qed
qed

lemma space_sets: "int_isspace c \<Longrightarrow> py_isspace c"
  by (auto simp: int_isspace_def py_isspace_def)

lemma parse_fails_on_bad_char:
  assumes "c \<in> set tv" "\<not> is_digit c" "c \<notin> set '':+-_''" "\<not> py_isspace c"
  shows "parse_hour_minute tv = None"
proof -
  let ?parts = "py_strip (py_remove CHR '':'' tv)"
  have ni: "\<not> int_isspace c" using assms(4) space_sets by blast
  have sg: "c \<noteq> CHR ''+''" "c \<noteq> CHR ''-''" "c \<noteq> CHR ''_''" "c \<noteq> CHR '':''"
    using assms(3) by auto
  have "c \<in> set (py_remove CHR '':'' tv)" using assms(1) sg(4) by (simp add: py_remove_def)
  then have cp: "c \<in> set ?parts"
    unfolding py_strip_def using strip_by_keeps [of c _ py_isspace] assms(4) by blast
  have bad: "\<And>t. c \<in> set t \<Longrightarrow> py_int t = None"
    by (rule py_int_bad [OF _ assms(2) sg(1,2,3) ni])
  show ?thesis
  proof (cases "length ?parts \<le> 2")
    case True
    then show ?thesis using bad [OF cp]
      by (simp add: parse_hour_minute_def)
  next
    case False
    have "c \<in> set (take (length ?parts - 2) ?parts) \<or> c \<in> set (drop (length ?parts - 2) ?parts)"
      using cp by (metis Un_iff append_take_drop_id set_append)
    then have "py_int (take (length ?parts - 2) ?parts) = None
        \<or> py_int (drop (length ?parts - 2) ?parts) = None"
      by (auto simp: bad)
    then show ?thesis using False
      by (auto simp: parse_hour_minute_def Let_def split: option.splits)
  qed
qed

text \<open>
  C2 fails as stated: the string is stripped and lower-cased before anything else and the
  \<^verbatim>\<open>except\<close> branch returns that normalised string, so \<open>Noon\<close>, which holds neither
  \<open>am\<close> nor \<open>pm\<close> and is no number, comes back as \<open>noon\<close>.
\<close>

theorem unparseable_time_counterexample:
  "''Noon'' \<noteq> [] \<and> \<not> py_in ''am'' ''Noon'' \<and> \<not> py_in ''pm'' ''Noon''
   \<and> parse_hour_minute (py_lower (py_strip ''Noon'')) = None
   \<and> format_time_12hr (TStr ''Noon'') = ''noon''
   \<and> format_time_12hr (TStr ''Noon'') \<noteq> ''Noon''"
proof -
  have "\<not> py_in ''am'' ''Noon''" "\<not> py_in ''pm'' ''Noon''" by simp_all
  moreover have "parse_hour_minute (py_lower (py_strip ''Noon'')) = None" by code_simp
  moreover have "format_time_12hr (TStr ''Noon'') = ''noon''" by code_simp
  ultimately show ?thesis by simp
qed

text \<open>
  C2, amended. For every non-empty string whose stripped, lower-cased form holds neither
  \<open>am\<close> nor \<open>pm\<close> and on which the digit rule fails (one of the two \<^verbatim>\<open>int()\<close> calls
  raises, as it does whenever that form holds a character that is not a digit, a colon,
  a sign, an underscore or white space), \<^verbatim>\<open>format_time_12hr\<close> returns that stripped,
  lower-cased form; this is the original string exactly when it was already in that form.
  The function is total: no exception leaves it.
\<close>

theorem unparseable_time_normalised:
  assumes "s \<noteq> []"
    and "\<not> py_in ''am'' (py_lower (py_strip s))" and "\<not> py_in ''pm'' (py_lower (py_strip s))"
    and "parse_hour_minute (py_lower (py_strip s)) = None
       \<or> (\<exists>c\<in>set (py_lower (py_strip s)). \<not> is_digit c \<and> c \<notin> set '':+-_'' \<and> \<not> py_isspace c)"
  shows "format_time_12hr (TStr s) = py_lower (py_strip s)
     \<and> (py_lower (py_strip s) = s \<longrightarrow> format_time_12hr (TStr s) = s)"
proof -
  have "parse_hour_minute (py_lower (py_strip s)) = None"
    using assms(4) parse_fails_on_bad_char by blast
  then have "format_time_12hr (TStr s) = py_lower (py_strip s)" using assms(1,2,3) by simp
  then show ?thesis by metis
qed

theorem unparseable_time_normalised_witness:
  "'' N/A '' \<noteq> []
   \<and> \<not> py_in ''am'' (py_lower (py_strip '' N/A ''))
   \<and> \<not> py_in ''pm'' (py_lower (py_strip '' N/A ''))
   \<and> parse_hour_minute (py_lower (py_strip '' N/A '')) = None
   \<and> py_lower (py_strip '' N/A '') = ''n/a''
   \<and> format_time_12hr (TStr '' N/A '') = ''n/a''"
proof -
  have n: "py_lower (py_strip '' N/A '') = ''n/a''" by code_simp
  have h: "'' N/A '' \<noteq> []" "\<not> py_in ''am'' (py_lower (py_strip '' N/A ''))"
    "\<not> py_in ''pm'' (py_lower (py_strip '' N/A ''))"
    unfolding n by simp_all
  have p: "parse_hour_minute (py_lower (py_strip '' N/A '')) = None"
    unfolding n by code_simp
  show ?thesis using unparseable_time_normalised [OF h disjI1 [OF p]] h p n by simp
qed

subsection \<open>Single-day path of MultiDayJob\<close>

text \<open>
  C1. Two jobs that are both on the single-day path (\<^verbatim>\<open>is_multi_day\<close> false, or at most
  one work day) and whose first work days, if any, have the same start time, end time and
  technicians get the same \<^verbatim>\<open>format_time_on_site()\<close> and the same
  \<^verbatim>\<open>format_type_time()\<close>, whatever the further days, the dates and the date formatter.
\<close>

theorem single_day_depends_on_first_day:
  assumes "\<not> is_multi_day j1 \<or> length (work_days j1) \<le> 1"
    and "\<not> is_multi_day j2 \<or> length (work_days j2) \<le> 1"
    and "map (\<lambda>d. (start_time d, end_time d, technicians d)) (take 1 (work_days j1))
       = map (\<lambda>d. (start_time d, end_time d, technicians d)) (take 1 (work_days j2))"
  shows "format_time_on_site fd1 j1 = format_time_on_site fd2 j2
     \<and> format_type_time fd1 j1 = format_type_time fd2 j2"
proof (cases "work_days j1")
  case Nil
  then have "work_days j2 = []" using assms(3) by (cases "work_days j2") auto
  then show ?thesis using Nil by (simp add: format_time_on_site_def format_type_time_def)
next
  case (Cons d1 r1)
  then obtain d2 r2 where c2: "work_days j2 = d2 # r2"
    using assms(3) by (cases "work_days j2") auto
  have eq: "start_time d1 = start_time d2" "end_time d1 = end_time d2"
    "technicians d1 = technicians d2"
    using assms(3) Cons c2 by simp_all
  have "format_time_range d1 = format_time_range d2"
    using eq by (simp add: format_time_range_def)
  moreover have "get_all_hours_by_type d1 = get_all_hours_by_type d2"
    using eq by (simp add: get_all_hours_by_type_def)
  ultimately show ?thesis using assms(1,2) Cons c2 eq
    by (simp add: format_time_on_site_def format_type_time_def)
qed

theorem single_day_depends_on_first_day_witness:
  "format_time_on_site (\<lambda>n::nat. ''a'')
     \<lparr>work_days =
        [\<lparr>start_time = Some (TStr ''0900''), end_time = None, date = Some 1,
          technicians = [\<lparr>name = Some ''Al'', hours = [''em'' \<mapsto> HNum 2]\<rparr>]\<rparr>,
         \<lparr>start_time = Some (TStr ''1000''), end_time = Some (TStr ''1100''), date = Some 2,
          technicians = [\<lparr>name = Some ''Bo'', hours = [''gpr'' \<mapsto> HNum 1]\<rparr>]\<rparr>],
      is_multi_day = False\<rparr>
   = format_time_on_site (\<lambda>n::nat. ''b'')
     \<lparr>work_days =
        [\<lparr>start_time = Some (TStr ''0900''), end_time = None, date = None,
          technicians = [\<lparr>name = Some ''Al'', hours = [''em'' \<mapsto> HNum 2]\<rparr>]\<rparr>],
      is_multi_day = True\<rparr>
   \<and> format_type_time (\<lambda>n::nat. ''a'')
     \<lparr>work_days =
        [\<lparr>start_time = Some (TStr ''0900''), end_time = None, date = Some 1,
          technicians = [\<lparr>name = Some ''Al'', hours = [''em'' \<mapsto> HNum 2]\<rparr>]\<rparr>,
         \<lparr>start_time = Some (TStr ''1000''), end_time = Some (TStr ''1100''), date = Some 2,
          technicians = [\<lparr>name = Some ''Bo'', hours = [''gpr'' \<mapsto> HNum 1]\<rparr>]\<rparr>],
      is_multi_day = False\<rparr>
   = format_type_time (\<lambda>n::nat. ''b'')
     \<lparr>work_days =
        [\<lparr>start_time = Some (TStr ''0900''), end_time = None, date = None,
          technicians = [\<lparr>name = Some ''Al'', hours = [''em'' \<mapsto> HNum 2]\<rparr>]\<rparr>],
      is_multi_day = True\<rparr>"
  by (rule single_day_depends_on_first_day) simp_all

subsection \<open>An hour entry that is None\<close>

lemma b64_2: "b64 2 = 2"
  by code_simp

lemma format_number_2: "format_number 2 = ''2''"
  by code_simp

lemma none_then_hours_raises:
  "has_any_hours \<lparr>name = Some ''Al'', hours = [''em'' \<mapsto> HNone, ''gpr'' \<mapsto> HNum 2]\<rparr>
     = Inl TypeError"
  by (simp add: has_any_hours_def HOUR_TYPES_def hours_get_def)

text \<open>
  C5 does not hold of the code. A technician whose \<^verbatim>\<open>em\<close> entry is \<^verbatim>\<open>None\<close> (an
  unanswered numeric field) and whose \<^verbatim>\<open>gpr\<close> entry is 2 makes \<^verbatim>\<open>has_any_hours()\<close>
  compare \<^verbatim>\<open>None > 0\<close>: \<^verbatim>\<open>format_type_time()\<close> and \<^verbatim>\<open>format_billing_details()\<close>
  raise \<^verbatim>\<open>TypeError\<close>. The sibling methods of the same class guard against exactly
  this value: \<^verbatim>\<open>format_hours_line()\<close> skips the entry and \<^verbatim>\<open>get_total_hours()\<close>
  counts it as zero.
\<close>

theorem none_hours_raise_in_billing:
  "format_type_time fd
     \<lparr>work_days = [\<lparr>start_time = None, end_time = None, date = None,
        technicians = [\<lparr>name = Some ''Al'', hours = [''em'' \<mapsto> HNone, ''gpr'' \<mapsto> HNum 2]\<rparr>]\<rparr>],
      is_multi_day = False\<rparr> = Inl TypeError
   \<and> format_billing_details fd
     (LocateReport_init\<lparr>job :=
       \<lparr>work_days = [\<lparr>start_time = None, end_time = None, date = None,
          technicians = [\<lparr>name = Some ''Al'', hours = [''em'' \<mapsto> HNone, ''gpr'' \<mapsto> HNum 2]\<rparr>]\<rparr>],
        is_multi_day = False\<rparr>\<rparr>) = Inl TypeError
   \<and> format_hours_line \<lparr>name = Some ''Al'', hours = [''em'' \<mapsto> HNone, ''gpr'' \<mapsto> HNum 2]\<rparr>
       = ''GPR = 2''
   \<and> get_total_hours \<lparr>name = Some ''Al'', hours = [''em'' \<mapsto> HNone, ''gpr'' \<mapsto> HNum 2]\<rparr> = 2"
proof -
  have "format_hours_line \<lparr>name = Some ''Al'', hours = [''em'' \<mapsto> HNone, ''gpr'' \<mapsto> HNum 2]\<rparr>
      = ''GPR = 2''"
    by (simp add: format_hours_line_def hours_part_def HOUR_TYPES_def hours_get_def b64_2
        format_number_2 hour_label_def HOUR_LABELS_def)
  moreover have "get_total_hours \<lparr>name = Some ''Al'', hours = [''em'' \<mapsto> HNone, ''gpr'' \<mapsto> HNum 2]\<rparr> = 2"
    by (simp add: get_total_hours_def HOUR_TYPES_def hours_get_def b64_2 fadd_def b64_0)
  ultimately show ?thesis
    by (simp add: format_billing_details_def format_type_time_def none_then_hours_raises
        bind_err_def LocateReport_init_def)
qed

theorem none_hours_raise_in_billing_witness:
  "format_type_time fdA
     \<lparr>work_days = [\<lparr>start_time = None, end_time = None, date = None,
        technicians = [\<lparr>name = Some ''Al'', hours = [''em'' \<mapsto> HNone, ''gpr'' \<mapsto> HNum 2]\<rparr>]\<rparr>],
      is_multi_day = False\<rparr> = Inl TypeError
   \<and> format_billing_details fdA
     (LocateReport_init\<lparr>job :=
       \<lparr>work_days = [\<lparr>start_time = None, end_time = None, date = None,
          technicians = [\<lparr>name = Some ''Al'', hours = [''em'' \<mapsto> HNone, ''gpr'' \<mapsto> HNum 2]\<rparr>]\<rparr>],
        is_multi_day = False\<rparr>\<rparr>) = Inl TypeError"
  using none_hours_raise_in_billing [of fdA] by blast

subsection \<open>The example job\<close>

lemma add_tech_hours_apply:
  "add_tech_hours tot t k =
     (if k \<in> set HOUR_TYPES then fadd (tot k) (float_or0 (hours_get t k)) else tot k)"
  by (simp add: add_tech_hours_def HOUR_TYPES_def)

lemma add_day_totals_apply:
  "add_day_totals tot day k =
     (if k \<in> set HOUR_TYPES then fadd (tot k) (get_all_hours_by_type day k) else tot k)"
  by (simp add: add_day_totals_def HOUR_TYPES_def Let_def)


lemma al2_hours: "has_any_hours al2 = Inr True"
  by (simp add: al2_def has_any_hours_def HOUR_TYPES_def hours_get_def)

lemma al2_line: "format_tech_line al2 = ''Al: EM = 2''"
  by (simp add: al2_def format_tech_line_def format_hours_line_def hours_part_def HOUR_TYPES_def
      hours_get_def b64_2 format_number_2 hour_label_def HOUR_LABELS_def getattr_or_def)

lemma al2_totals: "add_tech_hours zero_totals al2 = (\<lambda>k. if k = ''em'' then 2 else 0)"
  by (rule ext)
    (auto simp add: add_tech_hours_apply al2_def zero_totals_def hours_get_def fadd_def b64_2 b64_0
      HOUR_TYPES_def)

lemma totals_em2: "format_totals_line (\<lambda>k. if k = ''em'' then 2 else 0) = ''EM = 2''"
  by (simp add: format_totals_line_def format_number_2 hour_label_def HOUR_LABELS_def)

lemma jobA_techs: "get_all_technicians jobA = [(''Al'', \<lambda>k. if k = ''em'' then 2 else 0)]"
  by (simp add: get_all_technicians_def jobA_def dayA_def dayB_def tech_dict_add_def
      al2_totals [unfolded al2_def] getattr_or_def al2_def)

lemma dayA_hours: "get_all_hours_by_type dayA = (\<lambda>k. if k = ''em'' then 2 else 0)"
  by (simp add: get_all_hours_by_type_def dayA_def al2_totals)

lemma dayB_hours: "get_all_hours_by_type dayB = zero_totals"
  by (simp add: get_all_hours_by_type_def dayB_def)

lemma add_dayA: "add_day_totals zero_totals dayA = (\<lambda>k. if k = ''em'' then 2 else 0)"
proof (rule ext)
  fix k :: string
  show "add_day_totals zero_totals dayA k = (if k = ''em'' then 2 else 0)"
    by (cases "k = ''em''")
      (simp_all add: add_day_totals_apply dayA_hours zero_totals_def fadd_def b64_2 b64_0
        HOUR_TYPES_def)
qed

lemma add_dayB:
  "add_day_totals (\<lambda>k. if k = ''em'' then 2 else 0) dayB = (\<lambda>k. if k = ''em'' then 2 else 0)"
proof (rule ext)
  fix k :: string
  show "add_day_totals (\<lambda>k. if k = ''em'' then 2 else 0) dayB k = (if k = ''em'' then 2 else 0)"
    by (cases "k = ''em''")
      (simp_all add: add_day_totals_apply dayB_hours zero_totals_def fadd_def b64_2 b64_0
        HOUR_TYPES_def)
qed

lemma jobA_combined: "get_combined_totals jobA = (\<lambda>k. if k = ''em'' then 2 else 0)"
  by (simp add: get_combined_totals_def jobA_def add_dayA add_dayB)

lemma jobA_type_time:
  "format_type_time fd jobA = Inr (''Day (Unknown): Al: EM = 2'' @ [CHR 0x0D] @ [CHR 0x0D]
      @ ''TOTALS:'' @ [CHR 0x0D] @ ''  Al: EM = 2'' @ [CHR 0x0D] @ ''  Combined: EM = 2'')"
  by (simp add: format_type_time_def totals_lines_def jobA_techs jobA_combined totals_em2
      bind_err_def CR_def)
    (simp add: jobA_def dayA_def dayB_def al2_hours al2_line bind_err_def date_str_def)

subsection \<open>Billing details\<close>

lemma pad_header_eq: "pad_header s = s @ replicate (HEADER_WIDTH - length s) CHR '' ''"
proof (induction s rule: pad_header.induct)
  case (1 s)
  show ?case
  proof (cases "length s < HEADER_WIDTH")
    case True
    then have "HEADER_WIDTH - length s = Suc (HEADER_WIDTH - length (s @ '' ''))" by simp
    then show ?thesis using 1 True
      by (subst pad_header.simps) (simp add: replicate_append_same)
  next
    case False
    then show ?thesis by (subst pad_header.simps) simp
  qed
qed

lemma make_line_spec: "content \<noteq> [] \<Longrightarrow> make_line h content = spec_header h @ content"
  by (simp add: make_line_def spec_header_def pad_header_eq)

lemma make_line_empty: "make_line h [] = []"
  by (simp add: make_line_def)

lemma cont_spec: "make_continuation_line = spec_indent"
  by (rule ext) (simp add: make_continuation_line_def spec_indent_def)

lemma jobA_time_on_site:
  "format_time_on_site fd jobA = ''Day (Unknown): '' @ [CHR 0x0D] @ ''Day (Unknown): ''"
  by (simp add: format_time_on_site_def jobA_def dayA_def dayB_def date_str_def
      format_time_range_def getattr_or_def CR_def)

lemma split_tt: "py_split CHR 0x0D (''Day (Unknown): Al: EM = 2'' @ [CHR 0x0D] @ [CHR 0x0D]
      @ ''TOTALS:'' @ [CHR 0x0D] @ ''  Al: EM = 2'' @ [CHR 0x0D] @ ''  Combined: EM = 2'')
   = [''Day (Unknown): Al: EM = 2'', [], ''TOTALS:'', ''  Al: EM = 2'', ''  Combined: EM = 2'']"
  by simp

lemma pads:
  "pad_header ''TIME ON SITE:'' = ''TIME ON SITE:     ''"
  "pad_header ''TYPE/TIME:'' = ''TYPE/TIME:        ''"
  "replicate HEADER_WIDTH CHR '' '' = ''                  ''"
  by (simp_all add: pad_header_eq HEADER_WIDTH_def eval_nat_numeral)

text \<open>
  C4 fails as stated on the continuation lines: \<^verbatim>\<open>make_continuation_line\<close> returns an
  empty content unchanged, so the blank line that the multi-day TYPE/TIME text has before
  \<open>TOTALS:\<close> is emitted empty, not indented to the column of the content. The lines of
  the billing block of the example job:
\<close>

theorem blank_continuation_counterexample:
  "map_sum id (py_split CHR 0x0D) (format_billing_details fdA reportA)
   = Inr [''TIME ON SITE:     Day (Unknown): '',
          ''Day (Unknown): '',
          ''TYPE/TIME:        Day (Unknown): Al: EM = 2'',
          [],
          ''                  TOTALS:'',
          ''                    Al: EM = 2'',
          ''                    Combined: EM = 2'']"
proof -
  have "format_billing_details fdA reportA
     = Inr (''TIME ON SITE:     Day (Unknown): '' @ [CHR 0x0D] @
          ''Day (Unknown): '' @ [CHR 0x0D] @
          ''TYPE/TIME:        Day (Unknown): Al: EM = 2'' @ [CHR 0x0D] @
          [] @ [CHR 0x0D] @
          ''                  TOTALS:'' @ [CHR 0x0D] @
          ''                    Al: EM = 2'' @ [CHR 0x0D] @
          ''                    Combined: EM = 2'')"
    unfolding format_billing_details_def reportA_def
    by (simp add: LocateReport_init_def jobA_type_time jobA_time_on_site bind_err_def
        split_tt [simplified] make_line_def make_continuation_line_def pads
        format_supplemental_def format_materials_def format_property_type_def
        supp_fields_def mat_fields_def getattr_or_def CR_def)
  then show ?thesis by simp
qed

text \<open>
  C4, amended. Whenever \<^verbatim>\<open>format_type_time()\<close> returns, the billing block is the
  five sections TIME ON SITE, TYPE/TIME, SUPPLEMENTAL, MATERIALS, PROPERTY TYPE in this
  order, joined by carriage returns; a section with empty content is left out; a header
  line is the header and a colon padded to 18 characters, followed by the content; a
  TYPE/TIME line after the first is indented by 18 blanks when it is not empty and stays
  empty otherwise, and an empty first TYPE/TIME line gets no header.
\<close>

theorem billing_layout:
  assumes "format_type_time fd (job r) = Inr type_time"
  shows "format_billing_details fd r =
      Inr (py_join CR
        (spec_section ''TIME ON SITE'' (format_time_on_site fd (job r))
         @ spec_type_time_section type_time
         @ spec_section ''SUPPLEMENTAL'' (format_supplemental r)
         @ spec_section ''MATERIALS'' (format_materials r)
         @ spec_section ''PROPERTY TYPE'' (format_property_type r)))
     \<and> (\<forall>h \<in> set [''TIME ON SITE'', ''TYPE/TIME'', ''SUPPLEMENTAL'', ''MATERIALS'', ''PROPERTY TYPE''].
          length (spec_header h) = 18)"
proof -
  have tt: "(if type_time \<noteq> []
             then make_line ''TYPE/TIME'' (hd (py_split CHR 0x0D type_time))
                  # map make_continuation_line (tl (py_split CHR 0x0D type_time))
             else []) = spec_type_time_section type_time"
    by (simp add: spec_type_time_section_def Let_def cont_spec make_line_spec make_line_empty)
  have sec: "\<And>h c. (if c \<noteq> [] then [make_line h c] else []) = spec_section h c"
    by (simp add: spec_section_def make_line_spec)
  have "format_billing_details fd r =
      Inr (py_join CR
        (spec_section ''TIME ON SITE'' (format_time_on_site fd (job r))
         @ spec_type_time_section type_time
         @ spec_section ''SUPPLEMENTAL'' (format_supplemental r)
         @ spec_section ''MATERIALS'' (format_materials r)
         @ spec_section ''PROPERTY TYPE'' (format_property_type r)))"
    unfolding format_billing_details_def Let_def assms bind_err_def sum.case tt sec ..
  moreover have "\<forall>h \<in> set [''TIME ON SITE'', ''TYPE/TIME'', ''SUPPLEMENTAL'', ''MATERIALS'', ''PROPERTY TYPE''].
          length (spec_header h) = 18"
    by (simp add: spec_header_def HEADER_WIDTH_def)
  ultimately show ?thesis by blast
qed

theorem billing_layout_witness:
  "format_type_time fdA (job reportA)
     = Inr (''Day (Unknown): Al: EM = 2'' @ [CHR 0x0D] @ [CHR 0x0D]
        @ ''TOTALS:'' @ [CHR 0x0D] @ ''  Al: EM = 2'' @ [CHR 0x0D] @ ''  Combined: EM = 2'')
   \<and> (format_billing_details fdA reportA =
      Inr (py_join CR
        (spec_section ''TIME ON SITE'' (format_time_on_site fdA (job reportA))
         @ spec_type_time_section (''Day (Unknown): Al: EM = 2'' @ [CHR 0x0D] @ [CHR 0x0D]
             @ ''TOTALS:'' @ [CHR 0x0D] @ ''  Al: EM = 2'' @ [CHR 0x0D] @ ''  Combined: EM = 2'')
         @ spec_section ''SUPPLEMENTAL'' (format_supplemental reportA)
         @ spec_section ''MATERIALS'' (format_materials reportA)
         @ spec_section ''PROPERTY TYPE'' (format_property_type reportA)))
     \<and> length (spec_header ''TYPE/TIME'') = 18)"
proof -
  have j: "job reportA = jobA"
    by (simp add: reportA_def LocateReport_init_def)
  have h: "format_type_time fdA (job reportA)
     = Inr (''Day (Unknown): Al: EM = 2'' @ [CHR 0x0D] @ [CHR 0x0D]
        @ ''TOTALS:'' @ [CHR 0x0D] @ ''  Al: EM = 2'' @ [CHR 0x0D] @ ''  Combined: EM = 2'')"
    unfolding j by (rule jobA_type_time)
  note t = billing_layout [OF h]
  have l: "length (spec_header ''TYPE/TIME'') = 18" using conjunct2 [OF t] by simp
  show ?thesis by (intro conjI h conjunct1 [OF t] l)
qed

subsection \<open>Multi-day TYPE/TIME\<close>





lemma foldl_add_tech:
  "foldl add_tech_hours tot ts k =
     (if k \<in> set HOUR_TYPES
      then foldl fadd (tot k) (map (\<lambda>t. float_or0 (hours_get t k)) ts) else tot k)"
  by (induction ts arbitrary: tot) (simp_all add: add_tech_hours_apply)

lemma foldl_add_day:
  "foldl add_day_totals tot days k =
     (if k \<in> set HOUR_TYPES
      then foldl fadd (tot k) (map (\<lambda>d. get_all_hours_by_type d k) days) else tot k)"
  by (induction days arbitrary: tot) (simp_all add: add_day_totals_apply)

lemma day_hours_sum:
  "k \<in> set HOUR_TYPES \<Longrightarrow> get_all_hours_by_type day k = sum_hours (technicians day) k"
  by (simp add: get_all_hours_by_type_def foldl_add_tech sum_hours_def zero_totals_def)

lemma combined_is_grand_total:
  assumes "k \<in> set HOUR_TYPES"
  shows "get_combined_totals j k = spec_grand_totals j k"
proof -
  have m: "map (\<lambda>d. get_all_hours_by_type d k) (work_days j)
      = map (\<lambda>d. sum_hours (technicians d) k) (work_days j)"
    by (intro map_cong refl) (rule day_hours_sum [OF assms])
  show ?thesis
    unfolding get_combined_totals_def foldl_add_day spec_grand_totals_def zero_totals_def m
    using assms by simp
qed

lemma format_totals_line_cong:
  "(\<And>k. k \<in> set HOUR_TYPES \<Longrightarrow> tot k = tot' k)
   \<Longrightarrow> format_totals_line tot = format_totals_line tot'"
  by (simp add: format_totals_line_def HOUR_TYPES_def)












lemma combined_line:
  "format_totals_line (get_combined_totals j) = format_totals_line (spec_grand_totals j)"
  by (rule format_totals_line_cong) (rule combined_is_grand_total)












lemma add_dayB_zero: "add_day_totals zero_totals dayB = zero_totals"
  by (rule ext) (simp add: add_day_totals_apply dayB_hours zero_totals_def fadd_def b64_0)






end
